theory Spec2Isabelle
  imports Complex_Main
begin

section \<open>JavaScript values, exceptions and the browser runtime\<close>

text \<open>
  The services keep their collections in \<open>localStorage\<close> as JSON text.  A value that
  \<open>JSON.parse\<close> can return is a \<open>json\<close>; an object is the list of its own properties
  in insertion order (the keys of one object are distinct).  The model compares and
  stores numbers and never calculates with them; a number is a real, and the comparison
  of two finite doubles is the comparison of the reals they stand for.
\<close>

datatype json =
    JNull
  | JBool bool
  | JNum real
  | JStr string
  | JArr "json list"
  | JObj "(string \<times> json) list"

text \<open>
  What a call can throw.  \<open>SyntaxError\<close> is raised by \<open>JSON.parse\<close>, \<open>TypeError\<close> by a
  property read on \<open>null\<close> or a call of something that is no function; the last four are
  the validation failures of the Loan Store.
\<close>

datatype exn =
    SyntaxError
  | TypeError
  | NameRequired
  | AmountNotPositive
  | TermNotPositive
  | InterestRateInvalid

text \<open>
  \<open>JSON.parse\<close> and \<open>JSON.stringify\<close> are built into the browser, not part of the
  repository: they are parameters of the model.  \<open>JSON.parse\<close> either throws or returns
  a value.
\<close>

record runtime =
  JSON_parse :: "string \<Rightarrow> exn + json"
  JSON_stringify :: "json \<Rightarrow> string"

text \<open>\<open>localStorage\<close>: \<open>getItem\<close> is application, \<open>null\<close> is \<open>None\<close>.\<close>

type_synonym storage = "string \<rightharpoonup> string"

definition setItem :: "string \<Rightarrow> string \<Rightarrow> storage \<Rightarrow> storage" where
  "setItem k v ls = ls(k \<mapsto> v)"

definition removeItem :: "string \<Rightarrow> storage \<Rightarrow> storage" where
  "removeItem k ls = ls(k := None)"

text \<open>
  A call returns or throws, and leaves a storage behind in both cases: what was
  written before an exception stays written.
\<close>

type_synonym 'a outcome = "(exn + 'a) \<times> storage"


section \<open>Types (\<open>src/types/auditLog.ts\<close>)\<close>

text \<open>
  Modelled from the spec: \<open>LoanStatus\<close> is imported from \<open>src/types/loan.ts\<close>, which
  is not among the sources; the spec and the tests give its three values.
\<close>

datatype LoanStatus = pending | approved | rejected

datatype AuditAction = loan_created | status_changed | auto_decided

record CreateAuditLogInput =
  action :: AuditAction
  loanId :: string
  previousStatus :: "LoanStatus option"
  newStatus :: "LoanStatus option"
  details :: "string option"

text \<open>An \<open>AuditLogEntry\<close> has the fields of the input, an \<open>id\<close> and a \<open>timestamp\<close>.\<close>

record AuditLogEntry = CreateAuditLogInput +
  entry_id :: string
  timestamp :: string

fun status_str :: "LoanStatus \<Rightarrow> string" where
  "status_str pending = ''pending''"
| "status_str approved = ''approved''"
| "status_str rejected = ''rejected''"

fun action_str :: "AuditAction \<Rightarrow> string" where
  "action_str loan_created = ''loan_created''"
| "action_str status_changed = ''status_changed''"
| "action_str auto_decided = ''auto_decided''"

text \<open>
  A property whose value is \<open>undefined\<close> is left out by \<open>JSON.stringify\<close> and reads as
  \<open>undefined\<close> either way, so an optional field that is absent is no property here.
\<close>

fun opt_prop :: "string \<Rightarrow> json option \<Rightarrow> (string \<times> json) list" where
  "opt_prop k None = []"
| "opt_prop k (Some v) = [(k, v)]"

text \<open>The entry as a JavaScript object, its properties in the order of the object literal.\<close>

definition entry_json :: "AuditLogEntry \<Rightarrow> json" where
  "entry_json e = JObj (
     [(''id'', JStr (entry_id e)),
      (''timestamp'', JStr (timestamp e)),
      (''action'', JStr (action_str (action e))),
      (''loanId'', JStr (loanId e))]
     @ opt_prop ''previousStatus'' (map_option (\<lambda>s. JStr (status_str s)) (previousStatus e))
     @ opt_prop ''newStatus'' (map_option (\<lambda>s. JStr (status_str s)) (newStatus e))
     @ opt_prop ''details'' (map_option JStr (details e)))"


section \<open>Audit Log Store (\<open>src/services/auditLogService.ts\<close>)\<close>

definition STORAGE_KEY :: string where
  "STORAGE_KEY = ''tredgate_audit_logs''"

text \<open>
  The body of the \<open>try\<close> block of \<open>getAuditLogs\<close>: \<open>!stored\<close> holds for \<open>null\<close> and for
  the empty string; the result of \<open>JSON.parse\<close> is returned under an unchecked cast.
\<close>

definition getAuditLogs_try :: "runtime \<Rightarrow> storage \<Rightarrow> exn + json" where
  "getAuditLogs_try rt ls =
     (case ls STORAGE_KEY of
        None \<Rightarrow> Inr (JArr [])
      | Some stored \<Rightarrow>
          if stored = [] then Inr (JArr []) else JSON_parse rt stored)"

text \<open>The \<open>catch\<close> clause turns whatever was thrown into the empty array.\<close>

definition getAuditLogs :: "runtime \<Rightarrow> storage \<Rightarrow> json" where
  "getAuditLogs rt ls =
     (case getAuditLogs_try rt ls of
        Inl e \<Rightarrow> JArr []
      | Inr v \<Rightarrow> v)"

definition saveAuditLogs :: "runtime \<Rightarrow> json \<Rightarrow> storage \<Rightarrow> storage" where
  "saveAuditLogs rt logs ls = setItem STORAGE_KEY (JSON_stringify rt logs) ls"

text \<open>
  \<open>createAuditLogEntry\<close>: \<open>newId\<close> and \<open>now\<close> are what \<open>generateId()\<close> and
  \<open>new Date().toISOString()\<close> return in this call.  \<open>logs.push\<close> is a function only when
  \<open>logs\<close> is an array; on any other value the call throws before anything is saved.
\<close>

definition createAuditLogEntry ::
  "runtime \<Rightarrow> string \<Rightarrow> string \<Rightarrow> CreateAuditLogInput \<Rightarrow> storage \<Rightarrow> AuditLogEntry outcome" where
  "createAuditLogEntry rt newId now input ls =
     (let newEntry = \<lparr>action = action input, loanId = loanId input,
                       previousStatus = previousStatus input, newStatus = newStatus input,
                       details = details input, entry_id = newId, timestamp = now\<rparr>
      in case getAuditLogs rt ls of
           JArr logs \<Rightarrow> (Inr newEntry, saveAuditLogs rt (JArr (logs @ [entry_json newEntry])) ls)
         | _ \<Rightarrow> (Inl TypeError, ls))"

text \<open>
  \<open>log.loanId\<close>: reading a property of \<open>null\<close> throws; an object gives the property or
  \<open>undefined\<close> (\<open>None\<close>); a number, boolean, string or array has no property of this name.
\<close>

fun prop_loanId :: "json \<Rightarrow> exn + json option" where
  "prop_loanId JNull = Inl TypeError"
| "prop_loanId (JObj kvs) = Inr (map_of kvs ''loanId'')"
| "prop_loanId _ = Inr None"

text \<open>\<open>log => log.loanId === loanId\<close>, with \<open>loanId\<close> a string.\<close>

definition loanId_matches :: "string \<Rightarrow> json \<Rightarrow> exn + bool" where
  "loanId_matches x entry =
     (case prop_loanId entry of
        Inl e \<Rightarrow> Inl e
      | Inr v \<Rightarrow> Inr (v = Some (JStr x)))"

text \<open>\<open>Array.prototype.filter\<close>: elements in order, the first exception ends the call.\<close>

fun js_filter :: "('a \<Rightarrow> exn + bool) \<Rightarrow> 'a list \<Rightarrow> exn + 'a list" where
  "js_filter p [] = Inr []"
| "js_filter p (x # xs) =
     (case p x of
        Inl e \<Rightarrow> Inl e
      | Inr b \<Rightarrow>
          (case js_filter p xs of
             Inl e \<Rightarrow> Inl e
           | Inr ys \<Rightarrow> Inr (if b then x # ys else ys)))"

definition getAuditLogsForLoan :: "runtime \<Rightarrow> string \<Rightarrow> storage \<Rightarrow> exn + json list" where
  "getAuditLogsForLoan rt x ls =
     (case getAuditLogs rt ls of
        JArr logs \<Rightarrow> js_filter (loanId_matches x) logs
      | _ \<Rightarrow> Inl TypeError)"

definition clearAuditLogs :: "storage \<Rightarrow> storage" where
  "clearAuditLogs ls = removeItem STORAGE_KEY ls"


section \<open>Decision rule (\<open>e2e/helpers/testHelpers.ts\<close>)\<close>

definition shouldAutoApprove :: "real \<Rightarrow> real \<Rightarrow> bool" where
  "shouldAutoApprove amount termMonths \<longleftrightarrow> amount \<le> 100000 \<and> termMonths \<le> 60"


section \<open>Loan Store (\<open>src/services/loanService.ts\<close>)\<close>

text \<open>
  Modelled from the spec: \<open>src/types/loan.ts\<close> is not among the sources.  The input of
  \<open>create\<close> has the four fields the spec lists; all numbers are \<open>number\<close>.
\<close>

record CreateLoanInput =
  applicantName :: string
  amount :: real
  termMonths :: real
  interestRate :: real

text \<open>
  Modelled from the spec: \<open>src/types/loan.ts\<close> is not among the sources.  A
  \<open>LoanApplication\<close> has the fields of the input, an \<open>id\<close>, a \<open>status\<close> and \<open>createdAt\<close>.
\<close>

record LoanApplication = CreateLoanInput +
  loan_id :: string
  status :: LoanStatus
  createdAt :: string

text \<open>
  Modelled from the spec: \<open>loanService.ts\<close> is not among the sources.  The loans are
  persisted under the key \<open>tredgate_loans\<close>.
\<close>

definition LOANS_KEY :: string where
  "LOANS_KEY = ''tredgate_loans''"

text \<open>
  Modelled from the spec: \<open>loanService.ts\<close> is not among the sources.  A loan is
  persisted as a JSON object with the fields of the data model.
\<close>

definition loan_json :: "LoanApplication \<Rightarrow> json" where
  "loan_json l = JObj
     [(''id'', JStr (loan_id l)),
      (''applicantName'', JStr (applicantName l)),
      (''amount'', JNum (amount l)),
      (''termMonths'', JNum (termMonths l)),
      (''interestRate'', JNum (interestRate l)),
      (''status'', JStr (status_str (status l))),
      (''createdAt'', JStr (createdAt l))]"

text \<open>
  Modelled from the spec: \<open>loanService.ts\<close> is not among the sources.  The collection
  is persisted as one JSON array, in persistence order.
\<close>

definition loans_json :: "LoanApplication list \<Rightarrow> json" where
  "loans_json loans = JArr (map loan_json loans)"

text \<open>
  Modelled from the spec: \<open>loanService.ts\<close> is not among the sources.  A property
  that must be a string: absent or of another type, the data is corrupted.
\<close>

fun str_of :: "json option \<Rightarrow> string option" where
  "str_of (Some (JStr s)) = Some s"
| "str_of _ = None"

text \<open>
  Modelled from the spec: \<open>loanService.ts\<close> is not among the sources.  A property
  that must be a number.
\<close>

fun num_of :: "json option \<Rightarrow> real option" where
  "num_of (Some (JNum r)) = Some r"
| "num_of _ = None"

text \<open>
  Modelled from the spec: \<open>src/types/loan.ts\<close> is not among the sources.  The status
  is one of the three enumerated values.
\<close>

definition status_of_str :: "string \<Rightarrow> LoanStatus option" where
  "status_of_str s =
     (if s = ''pending'' then Some pending
      else if s = ''approved'' then Some approved
      else if s = ''rejected'' then Some rejected
      else None)"

text \<open>
  Modelled from the spec: \<open>loanService.ts\<close> is not among the sources.  Reading a loan
  back from its JSON object; data of any other shape is corrupted.
\<close>

fun json_loan :: "json \<Rightarrow> LoanApplication option" where
  "json_loan (JObj kvs) =
     Option.bind (str_of (map_of kvs ''id'')) (\<lambda>i.
     Option.bind (str_of (map_of kvs ''applicantName'')) (\<lambda>n.
     Option.bind (num_of (map_of kvs ''amount'')) (\<lambda>a.
     Option.bind (num_of (map_of kvs ''termMonths'')) (\<lambda>t.
     Option.bind (num_of (map_of kvs ''interestRate'')) (\<lambda>r.
     Option.bind (Option.bind (str_of (map_of kvs ''status'')) status_of_str) (\<lambda>s.
     Option.bind (str_of (map_of kvs ''createdAt'')) (\<lambda>c.
       Some \<lparr>applicantName = n, amount = a, termMonths = t, interestRate = r,
             loan_id = i, status = s, createdAt = c\<rparr>)))))))"
| "json_loan _ = None"

text \<open>
  Modelled from the spec: \<open>loanService.ts\<close> is not among the sources.  One corrupted
  element makes the whole collection corrupted.
\<close>

fun all_some :: "'a option list \<Rightarrow> 'a list option" where
  "all_some [] = Some []"
| "all_some (None # xs) = None"
| "all_some (Some x # xs) = map_option ((#) x) (all_some xs)"

text \<open>
  Modelled from the spec: \<open>loanService.ts\<close> is not among the sources.  The persisted
  collection is an array of loans; anything else is corrupted.
\<close>

fun json_loans :: "json \<Rightarrow> LoanApplication list option" where
  "json_loans (JArr xs) = all_some (map json_loan xs)"
| "json_loans _ = None"

text \<open>
  Modelled from the spec: \<open>loanService.ts\<close> is not among the sources.  \<open>list()\<close> returns
  all loans in persistence order, and the empty collection when the store is empty or the
  underlying data is unparseable or corrupted; it signals no error.
\<close>

definition getLoans :: "runtime \<Rightarrow> storage \<Rightarrow> LoanApplication list" where
  "getLoans rt ls =
     (case ls LOANS_KEY of
        None \<Rightarrow> []
      | Some stored \<Rightarrow>
          if stored = [] then []
          else (case JSON_parse rt stored of
                  Inl e \<Rightarrow> []
                | Inr v \<Rightarrow> (case json_loans v of None \<Rightarrow> [] | Some loans \<Rightarrow> loans)))"

text \<open>
  Modelled from the spec: \<open>loanService.ts\<close> is not among the sources.  Every mutation
  writes the full collection back.
\<close>

definition saveLoans :: "runtime \<Rightarrow> LoanApplication list \<Rightarrow> storage \<Rightarrow> storage" where
  "saveLoans rt loans ls = setItem LOANS_KEY (JSON_stringify rt (loans_json loans)) ls"

text \<open>
  Modelled from the spec: \<open>loanService.ts\<close> is not among the sources.  The applicant
  name is trimmed of white space at both ends (the ASCII white space characters).
\<close>

definition is_space :: "char \<Rightarrow> bool" where
  "is_space c \<longleftrightarrow> c \<in> set [CHR 0x20, CHR 0x09, CHR 0x0A, CHR 0x0B, CHR 0x0C, CHR 0x0D]"

text \<open>
  Modelled from the spec: \<open>loanService.ts\<close> is not among the sources.  Trimming
  removes the white space before the first and after the last other character.
\<close>

definition trim :: "string \<Rightarrow> string" where
  "trim s = rev (dropWhile is_space (rev (dropWhile is_space s)))"

text \<open>
  Modelled from the spec: \<open>loanService.ts\<close> is not among the sources.  \<open>create\<close>
  validates the fields (name empty after trimming, amount \<open>\<le> 0\<close>, term \<open>\<le> 0\<close>, negative
  interest rate, each with its own error) and fails without persisting or logging;
  otherwise it assigns \<open>id\<close> and \<open>createdAt\<close>, sets the status to \<open>pending\<close>, persists,
  appends an audit entry with action \<open>loan_created\<close> and new status \<open>pending\<close>, and
  returns the record.  \<open>newId\<close> and \<open>now\<close> are what the id facility and the clock give
  to the store, \<open>auditId\<close> and \<open>auditNow\<close> what they give to the Audit Log Store.  The
  free text of \<open>details\<close> is left open by the spec and is not modelled.
\<close>

definition createLoanApplication ::
  "runtime \<Rightarrow> string \<Rightarrow> string \<Rightarrow> string \<Rightarrow> string \<Rightarrow> CreateLoanInput \<Rightarrow> storage
     \<Rightarrow> LoanApplication outcome" where
  "createLoanApplication rt newId now auditId auditNow input ls =
     (if trim (applicantName input) = [] then (Inl NameRequired, ls)
      else if amount input \<le> 0 then (Inl AmountNotPositive, ls)
      else if termMonths input \<le> 0 then (Inl TermNotPositive, ls)
      else if interestRate input < 0 then (Inl InterestRateInvalid, ls)
      else
        (let loan = \<lparr>applicantName = trim (applicantName input), amount = amount input,
                     termMonths = termMonths input, interestRate = interestRate input,
                     loan_id = newId, status = pending, createdAt = now\<rparr>;
             ls1 = saveLoans rt (getLoans rt ls @ [loan]) ls
         in case createAuditLogEntry rt auditId auditNow
                   \<lparr>action = loan_created, loanId = newId, previousStatus = None,
                    newStatus = Some pending, details = None\<rparr> ls1 of
              (Inl e, ls2) \<Rightarrow> (Inl e, ls2)
            | (Inr entry, ls2) \<Rightarrow> (Inr loan, ls2)))"

text \<open>
  Modelled from the spec: \<open>loanService.ts\<close> is not among the sources.  The status of
  the loan that the lookup by id finds (the first with that id) is set in place.
\<close>

fun set_status :: "string \<Rightarrow> LoanStatus \<Rightarrow> LoanApplication list \<Rightarrow> LoanApplication list" where
  "set_status i s [] = []"
| "set_status i s (l # loans) =
     (if loan_id l = i then l\<lparr>status := s\<rparr> # loans else l # set_status i s loans)"

text \<open>
  Modelled from the spec: \<open>loanService.ts\<close> is not among the sources.  \<open>updateStatus\<close>
  looks up the loan; if absent it does nothing and signals no error.  If present it
  records the current status as previous status, sets the status to \<open>newStatus\<close> (no
  check of the transition), persists, and appends an audit entry with action
  \<open>status_changed\<close>, the previous and the new status.
\<close>

definition updateLoanStatus ::
  "runtime \<Rightarrow> string \<Rightarrow> string \<Rightarrow> string \<Rightarrow> LoanStatus \<Rightarrow> storage \<Rightarrow> unit outcome" where
  "updateLoanStatus rt auditId auditNow i s ls =
     (let loans = getLoans rt ls
      in case find (\<lambda>l. loan_id l = i) loans of
           None \<Rightarrow> (Inr (), ls)
         | Some loan \<Rightarrow>
             (let ls1 = saveLoans rt (set_status i s loans) ls
              in case createAuditLogEntry rt auditId auditNow
                        \<lparr>action = status_changed, loanId = i,
                         previousStatus = Some (status loan), newStatus = Some s,
                         details = None\<rparr> ls1 of
                   (Inl e, ls2) \<Rightarrow> (Inl e, ls2)
                 | (Inr entry, ls2) \<Rightarrow> (Inr (), ls2)))"

text \<open>
  Modelled from the spec: \<open>loanService.ts\<close> is not among the sources.  \<open>autoDecide\<close>
  looks up the loan; if absent it does nothing.  Otherwise it applies the decision rule
  to amount and term, giving \<open>approved\<close> or \<open>rejected\<close>, updates the status as
  \<open>updateStatus\<close> does, and logs with action \<open>auto_decided\<close>.
\<close>

definition autoDecideLoan ::
  "runtime \<Rightarrow> string \<Rightarrow> string \<Rightarrow> string \<Rightarrow> storage \<Rightarrow> unit outcome" where
  "autoDecideLoan rt auditId auditNow i ls =
     (let loans = getLoans rt ls
      in case find (\<lambda>l. loan_id l = i) loans of
           None \<Rightarrow> (Inr (), ls)
         | Some loan \<Rightarrow>
             (let decided = (if shouldAutoApprove (amount loan) (termMonths loan)
                             then approved else rejected);
                  ls1 = saveLoans rt (set_status i decided loans) ls
              in case createAuditLogEntry rt auditId auditNow
                        \<lparr>action = auto_decided, loanId = i,
                         previousStatus = Some (status loan), newStatus = Some decided,
                         details = None\<rparr> ls1 of
                   (Inl e, ls2) \<Rightarrow> (Inl e, ls2)
                 | (Inr entry, ls2) \<Rightarrow> (Inr (), ls2)))"

text \<open>
  Modelled from the spec: \<open>loanService.ts\<close> is not among the sources.  The operations
  of the Loan Store that write.
\<close>

datatype loan_op =
    Create CreateLoanInput
  | UpdateStatus string LoanStatus
  | AutoDecide string

text \<open>
  Modelled from the spec: \<open>loanService.ts\<close> is not among the sources.  The storage
  an operation leaves behind, whether it returns or throws.
\<close>

fun run_op ::
  "runtime \<Rightarrow> string \<Rightarrow> string \<Rightarrow> string \<Rightarrow> string \<Rightarrow> loan_op \<Rightarrow> storage \<Rightarrow> storage" where
  "run_op rt newId now auditId auditNow (Create input) ls =
     snd (createLoanApplication rt newId now auditId auditNow input ls)"
| "run_op rt newId now auditId auditNow (UpdateStatus i s) ls =
     snd (updateLoanStatus rt auditId auditNow i s ls)"
| "run_op rt newId now auditId auditNow (AutoDecide i) ls =
     snd (autoDecideLoan rt auditId auditNow i ls)"


section \<open>Reading back what was written\<close>

text \<open>
  The runtime reads a storage back when every item that is the serialisation of a value
  is non-empty text that parses to that value.  This is the round trip of
  \<open>JSON.stringify\<close> and \<open>JSON.parse\<close>, asked only of what the storage holds.
\<close>

definition reads_back :: "runtime \<Rightarrow> storage \<Rightarrow> bool" where
  "reads_back rt ls \<longleftrightarrow>
     (\<forall>k v. ls k = Some (JSON_stringify rt v) \<longrightarrow>
        JSON_stringify rt v \<noteq> [] \<and> JSON_parse rt (JSON_stringify rt v) = Inr v)"


section \<open>A worked example\<close>

text \<open>
  The loans, audit entries and runs that the examples below use: a loan for Alice that
  is created, approved and then rejected; a loan for Bob created after it; a loan for
  Eve of amount 150000 over 72 months; and an audit log of three entries for two loans.
\<close>

definition alice_input :: CreateLoanInput where
  "alice_input = \<lparr>applicantName = ''Alice Smith'', amount = 25000, termMonths = 12,
                   interestRate = 0.05\<rparr>"

definition alice :: "LoanStatus \<Rightarrow> LoanApplication" where
  "alice s = \<lparr>applicantName = ''Alice Smith'', amount = 25000, termMonths = 12,
             interestRate = 0.05, loan_id = ''L1'', status = s,
             createdAt = ''2024-01-01T10:00:00.000Z''\<rparr>"

definition alice_created :: AuditLogEntry where
  "alice_created = \<lparr>action = loan_created, loanId = ''L1'', previousStatus = None,
     newStatus = Some pending, details = None, entry_id = ''A1'',
     timestamp = ''2024-01-01T10:00:00.000Z''\<rparr>"

definition alice_approved :: AuditLogEntry where
  "alice_approved = \<lparr>action = status_changed, loanId = ''L1'', previousStatus = Some pending,
     newStatus = Some approved, details = None, entry_id = ''A2'',
     timestamp = ''2024-01-02T10:00:00.000Z''\<rparr>"

definition alice_rejected :: AuditLogEntry where
  "alice_rejected = \<lparr>action = status_changed, loanId = ''L1'', previousStatus = Some approved,
     newStatus = Some rejected, details = None, entry_id = ''A3'',
     timestamp = ''2024-01-03T10:00:00.000Z''\<rparr>"

definition eve :: "LoanStatus \<Rightarrow> LoanApplication" where
  "eve s = \<lparr>applicantName = ''Eve'', amount = 150000, termMonths = 72,
           interestRate = 0.08, loan_id = ''L2'', status = s,
           createdAt = ''2024-02-01T10:00:00.000Z''\<rparr>"

definition eve_decided :: AuditLogEntry where
  "eve_decided = \<lparr>action = auto_decided, loanId = ''L2'', previousStatus = Some pending,
     newStatus = Some rejected, details = None, entry_id = ''A4'',
     timestamp = ''2024-02-02T10:00:00.000Z''\<rparr>"

definition bob_input :: CreateLoanInput where
  "bob_input = \<lparr>applicantName = ''Bob'', amount = 50000, termMonths = 24,
                 interestRate = 0.08\<rparr>"

definition bob :: "string \<Rightarrow> LoanApplication" where
  "bob i = \<lparr>applicantName = ''Bob'', amount = 50000, termMonths = 24,
           interestRate = 0.08, loan_id = i, status = pending,
           createdAt = ''2024-01-05T10:00:00.000Z''\<rparr>"

definition bob_created :: "string \<Rightarrow> AuditLogEntry" where
  "bob_created i = \<lparr>action = loan_created, loanId = i, previousStatus = None,
     newStatus = Some pending, details = None, entry_id = ''A5'',
     timestamp = ''2024-01-05T10:00:00.000Z''\<rparr>"

definition three_entries :: "AuditLogEntry list" where
  "three_entries =
     [\<lparr>action = loan_created, loanId = ''loan-1'', previousStatus = None,
       newStatus = Some pending, details = None, entry_id = ''1'',
       timestamp = ''2024-01-01T00:00:00.000Z''\<rparr>,
      \<lparr>action = status_changed, loanId = ''loan-2'', previousStatus = Some pending,
       newStatus = Some approved, details = None, entry_id = ''2'',
       timestamp = ''2024-01-02T00:00:00.000Z''\<rparr>,
      \<lparr>action = status_changed, loanId = ''loan-1'', previousStatus = Some pending,
       newStatus = Some approved, details = None, entry_id = ''3'',
       timestamp = ''2024-01-03T00:00:00.000Z''\<rparr>]"

text \<open>
  The JSON texts of the values that the examples persist, as \<open>JSON.stringify\<close> writes
  them.
\<close>

definition json_texts :: "(json \<times> string) list" where
  \<open>json_texts =
    [(loans_json [alice pending],
      ''[{"id":"L1","applicantName":"Alice Smith","amount":25000,"termMonths":12,"interestRate":0.05,"status":"pending","createdAt":"2024-01-01T10:00:00.000Z"}]''),
     (loans_json [alice approved],
      ''[{"id":"L1","applicantName":"Alice Smith","amount":25000,"termMonths":12,"interestRate":0.05,"status":"approved","createdAt":"2024-01-01T10:00:00.000Z"}]''),
     (loans_json [alice rejected],
      ''[{"id":"L1","applicantName":"Alice Smith","amount":25000,"termMonths":12,"interestRate":0.05,"status":"rejected","createdAt":"2024-01-01T10:00:00.000Z"}]''),
     (JArr [entry_json alice_created],
      ''[{"id":"A1","timestamp":"2024-01-01T10:00:00.000Z","action":"loan_created","loanId":"L1","newStatus":"pending"}]''),
     (JArr [entry_json alice_created, entry_json alice_approved],
      ''[{"id":"A1","timestamp":"2024-01-01T10:00:00.000Z","action":"loan_created","loanId":"L1","newStatus":"pending"},{"id":"A2","timestamp":"2024-01-02T10:00:00.000Z","action":"status_changed","loanId":"L1","previousStatus":"pending","newStatus":"approved"}]''),
     (JArr [entry_json alice_created, entry_json alice_approved, entry_json alice_rejected],
      ''[{"id":"A1","timestamp":"2024-01-01T10:00:00.000Z","action":"loan_created","loanId":"L1","newStatus":"pending"},{"id":"A2","timestamp":"2024-01-02T10:00:00.000Z","action":"status_changed","loanId":"L1","previousStatus":"pending","newStatus":"approved"},{"id":"A3","timestamp":"2024-01-03T10:00:00.000Z","action":"status_changed","loanId":"L1","previousStatus":"approved","newStatus":"rejected"}]''),
     (loans_json [eve pending],
      ''[{"id":"L2","applicantName":"Eve","amount":150000,"termMonths":72,"interestRate":0.08,"status":"pending","createdAt":"2024-02-01T10:00:00.000Z"}]''),
     (loans_json [eve rejected],
      ''[{"id":"L2","applicantName":"Eve","amount":150000,"termMonths":72,"interestRate":0.08,"status":"rejected","createdAt":"2024-02-01T10:00:00.000Z"}]''),
     (JArr [entry_json eve_decided],
      ''[{"id":"A4","timestamp":"2024-02-02T10:00:00.000Z","action":"auto_decided","loanId":"L2","previousStatus":"pending","newStatus":"rejected"}]''),
     (JArr (map entry_json three_entries),
      ''[{"id":"1","timestamp":"2024-01-01T00:00:00.000Z","action":"loan_created","loanId":"loan-1","newStatus":"pending"},{"id":"2","timestamp":"2024-01-02T00:00:00.000Z","action":"status_changed","loanId":"loan-2","previousStatus":"pending","newStatus":"approved"},{"id":"3","timestamp":"2024-01-03T00:00:00.000Z","action":"status_changed","loanId":"loan-1","previousStatus":"pending","newStatus":"approved"}]''),
     (loans_json [alice pending, bob ''L3''],
      ''[{"id":"L1","applicantName":"Alice Smith","amount":25000,"termMonths":12,"interestRate":0.05,"status":"pending","createdAt":"2024-01-01T10:00:00.000Z"},{"id":"L3","applicantName":"Bob","amount":50000,"termMonths":24,"interestRate":0.08,"status":"pending","createdAt":"2024-01-05T10:00:00.000Z"}]''),
     (loans_json [alice pending, bob ''L1''],
      ''[{"id":"L1","applicantName":"Alice Smith","amount":25000,"termMonths":12,"interestRate":0.05,"status":"pending","createdAt":"2024-01-01T10:00:00.000Z"},{"id":"L1","applicantName":"Bob","amount":50000,"termMonths":24,"interestRate":0.08,"status":"pending","createdAt":"2024-01-05T10:00:00.000Z"}]''),
     (JArr [entry_json alice_created, entry_json (bob_created ''L3'')],
      ''[{"id":"A1","timestamp":"2024-01-01T10:00:00.000Z","action":"loan_created","loanId":"L1","newStatus":"pending"},{"id":"A5","timestamp":"2024-01-05T10:00:00.000Z","action":"loan_created","loanId":"L3","newStatus":"pending"}]''),
     (JArr [entry_json alice_created, entry_json (bob_created ''L1'')],
      ''[{"id":"A1","timestamp":"2024-01-01T10:00:00.000Z","action":"loan_created","loanId":"L1","newStatus":"pending"},{"id":"A5","timestamp":"2024-01-05T10:00:00.000Z","action":"loan_created","loanId":"L1","newStatus":"pending"}]''),
     (JNum 5, ''5''),
     (JNull, ''null'')]\<close>

text \<open>
  The runtime of the examples: \<open>JSON.stringify\<close> and \<open>JSON.parse\<close> restricted to
  the values and texts of the table.  A value outside the table has no text, and a text
  outside the table does not parse.
\<close>

definition example_stringify :: "json \<Rightarrow> string" where
  "example_stringify v = (case map_of json_texts v of Some t \<Rightarrow> t | None \<Rightarrow> [])"

definition example_parse :: "string \<Rightarrow> exn + json" where
  "example_parse s =
     (case map_of (map (\<lambda>(v, t). (t, v)) json_texts) s of
        Some v \<Rightarrow> Inr v
      | None \<Rightarrow> Inl SyntaxError)"

definition example_rt :: runtime where
  "example_rt = \<lparr>JSON_parse = example_parse, JSON_stringify = example_stringify\<rparr>"

definition after_create :: storage where
  "after_create = run_op example_rt ''L1'' ''2024-01-01T10:00:00.000Z''
     ''A1'' ''2024-01-01T10:00:00.000Z'' (Create alice_input) Map.empty"

definition after_approve :: storage where
  "after_approve = run_op example_rt [] [] ''A2'' ''2024-01-02T10:00:00.000Z''
     (UpdateStatus ''L1'' approved) after_create"

definition after_reject :: storage where
  "after_reject = run_op example_rt [] [] ''A3'' ''2024-01-03T10:00:00.000Z''
     (UpdateStatus ''L1'' rejected) after_approve"



definition three_store :: storage where
  "three_store = [STORAGE_KEY \<mapsto> example_stringify (JArr (map entry_json three_entries))]"

text \<open>
  A second loan, created after Alice's: once with an id of its own, once with the id
  that Alice's loan already has.
\<close>

definition after_bob :: storage where
  "after_bob = run_op example_rt ''L3'' ''2024-01-05T10:00:00.000Z''
     ''A5'' ''2024-01-05T10:00:00.000Z'' (Create bob_input) after_create"









section \<open>Properties of the stores\<close>

lemma keys_differ: "STORAGE_KEY \<noteq> LOANS_KEY" "LOANS_KEY \<noteq> STORAGE_KEY"
  by (simp_all add: STORAGE_KEY_def LOANS_KEY_def)

lemma status_of_str_inverse: "status_of_str (status_str s) = Some s"
  by (cases s) (simp_all add: status_of_str_def)

lemma json_loan_inverse: "json_loan (loan_json l) = Some l"
  by (simp add: loan_json_def status_of_str_inverse)

lemma json_loans_inverse: "json_loans (loans_json loans) = Some loans"
proof -
  have "all_some (map json_loan (map loan_json loans)) = Some loans"
    by (induction loans) (simp_all add: json_loan_inverse)
  then show ?thesis by (simp add: loans_json_def)
qed

lemma getLoans_read:
  assumes "ls LOANS_KEY = Some (JSON_stringify rt (loans_json loans))" and "reads_back rt ls"
  shows "getLoans rt ls = loans"
proof -
  from assms have "JSON_stringify rt (loans_json loans) \<noteq> []"
    and "JSON_parse rt (JSON_stringify rt (loans_json loans)) = Inr (loans_json loans)"
    unfolding reads_back_def by blast+
  with assms(1) show ?thesis
    by (simp add: getLoans_def json_loans_inverse)
qed

lemma getAuditLogs_read:
  assumes "ls STORAGE_KEY = Some (JSON_stringify rt v)" and "reads_back rt ls"
  shows "getAuditLogs rt ls = v"
proof -
  from assms have "JSON_stringify rt v \<noteq> []"
    and "JSON_parse rt (JSON_stringify rt v) = Inr v"
    unfolding reads_back_def by blast+
  with assms(1) show ?thesis
    by (simp add: getAuditLogs_def getAuditLogs_try_def)
qed

lemma getAuditLogs_saveLoans: "getAuditLogs rt (saveLoans rt loans ls) = getAuditLogs rt ls"
  by (simp add: getAuditLogs_def getAuditLogs_try_def saveLoans_def setItem_def keys_differ)

lemma createAuditLogEntry_array:
  assumes "getAuditLogs rt ls = JArr logs"
  shows "createAuditLogEntry rt newId now input ls =
     (Inr \<lparr>action = action input, loanId = loanId input,
           previousStatus = previousStatus input, newStatus = newStatus input,
           details = details input, entry_id = newId, timestamp = now\<rparr>,
      ls(STORAGE_KEY \<mapsto> JSON_stringify rt (JArr (logs @
        [entry_json \<lparr>action = action input, loanId = loanId input,
           previousStatus = previousStatus input, newStatus = newStatus input,
           details = details input, entry_id = newId, timestamp = now\<rparr>]))))"
  using assms by (simp add: createAuditLogEntry_def Let_def saveAuditLogs_def setItem_def)


lemma updateLoanStatus_found:
  assumes "find (\<lambda>l. loan_id l = i) (getLoans rt ls) = Some loan"
      and "getAuditLogs rt ls = JArr logs"
  shows "updateLoanStatus rt auditId auditNow i s ls =
     (Inr (),
      ls(LOANS_KEY \<mapsto> JSON_stringify rt (loans_json (set_status i s (getLoans rt ls))),
         STORAGE_KEY \<mapsto> JSON_stringify rt (JArr (logs @
           [entry_json \<lparr>action = status_changed, loanId = i,
              previousStatus = Some (status loan), newStatus = Some s, details = None,
              entry_id = auditId, timestamp = auditNow\<rparr>]))))"
  using assms
  by (simp add: updateLoanStatus_def Let_def getAuditLogs_saveLoans createAuditLogEntry_array)
     (simp add: saveLoans_def setItem_def)


lemma createLoanApplication_valid:
  assumes "trim (applicantName input) \<noteq> []" and "0 < amount input"
      and "0 < termMonths input" and "0 \<le> interestRate input"
      and "getAuditLogs rt ls = JArr logs"
  shows "createLoanApplication rt newId now auditId auditNow input ls =
     (Inr \<lparr>applicantName = trim (applicantName input), amount = amount input,
           termMonths = termMonths input, interestRate = interestRate input,
           loan_id = newId, status = pending, createdAt = now\<rparr>,
      ls(LOANS_KEY \<mapsto> JSON_stringify rt (loans_json (getLoans rt ls @
           [\<lparr>applicantName = trim (applicantName input), amount = amount input,
             termMonths = termMonths input, interestRate = interestRate input,
             loan_id = newId, status = pending, createdAt = now\<rparr>])),
         STORAGE_KEY \<mapsto> JSON_stringify rt (JArr (logs @
           [entry_json \<lparr>action = loan_created, loanId = newId,
              previousStatus = None, newStatus = Some pending, details = None,
              entry_id = auditId, timestamp = auditNow\<rparr>]))))"
  using assms
  by (simp add: createLoanApplication_def Let_def getAuditLogs_saveLoans createAuditLogEntry_array)
     (simp add: saveLoans_def setItem_def)


lemma find_None_iff_id: "find (\<lambda>l. loan_id l = i) loans = None \<longleftrightarrow> i \<notin> loan_id ` set loans"
  by (auto simp: find_None_iff)

lemma set_status_nth:
  assumes "k < length loans"
  shows "set_status i s loans ! k = loans ! k \<or>
         (loan_id (loans ! k) = i \<and> set_status i s loans ! k = (loans ! k)\<lparr>status := s\<rparr>)"
  using assms
proof (induction loans arbitrary: k)
  case Nil
  then show ?case by simp
next
  case (Cons l loans)
  then show ?case by (cases k) auto
qed

lemma loanId_matches_entry: "loanId_matches x (entry_json e) = Inr (loanId e = x)"
  by (simp add: loanId_matches_def entry_json_def)

lemma js_filter_entries:
  "js_filter (loanId_matches x) (map entry_json es) =
     Inr (map entry_json (filter (\<lambda>e. loanId e = x) es))"
  by (induction es) (simp_all add: loanId_matches_entry)

lemma createAuditLogEntry_keeps_loans:
  "snd (createAuditLogEntry rt newId now input ls) LOANS_KEY = ls LOANS_KEY"
  by (simp add: createAuditLogEntry_def Let_def saveAuditLogs_def setItem_def keys_differ
      split: json.splits)

lemma snd_rethrow:
  "snd (case p of (Inl e, ls2) \<Rightarrow> (Inl e, ls2) | (Inr x, ls2) \<Rightarrow> (f x, ls2)) = snd p"
  by (simp split: prod.splits sum.splits)

lemma set_status_absent:
  assumes "find (\<lambda>l. loan_id l = i) loans = None"
  shows "set_status i s loans = loans"
  using assms by (induction loans) (auto split: if_splits)

lemma updateLoanStatus_loans:
  assumes "reads_back rt (snd (updateLoanStatus rt auditId auditNow i s ls))"
  shows "getLoans rt (snd (updateLoanStatus rt auditId auditNow i s ls)) =
           set_status i s (getLoans rt ls)"
proof (cases "find (\<lambda>l. loan_id l = i) (getLoans rt ls)")
  case None
  then show ?thesis
    by (simp add: updateLoanStatus_def Let_def set_status_absent)
next
  case (Some loan)
  then have "snd (updateLoanStatus rt auditId auditNow i s ls) LOANS_KEY =
               Some (JSON_stringify rt (loans_json (set_status i s (getLoans rt ls))))"
    using createAuditLogEntry_keeps_loans[of rt auditId auditNow _
            "saveLoans rt (set_status i s (getLoans rt ls)) ls"]
    by (simp add: updateLoanStatus_def Let_def snd_rethrow) (simp add: saveLoans_def setItem_def)
  then show ?thesis using assms by (rule getLoans_read)
qed

lemma autoDecideLoan_loans:
  assumes "reads_back rt (snd (autoDecideLoan rt auditId auditNow i ls))"
  shows "\<exists>s \<in> {approved, rejected}.
           getLoans rt (snd (autoDecideLoan rt auditId auditNow i ls)) =
             set_status i s (getLoans rt ls)"
proof (cases "find (\<lambda>l. loan_id l = i) (getLoans rt ls)")
  case None
  then show ?thesis
    by (auto simp: autoDecideLoan_def Let_def set_status_absent)
next
  case (Some loan)
  define d where "d = (if shouldAutoApprove (amount loan) (termMonths loan)
                       then approved else rejected)"
  from Some have "snd (autoDecideLoan rt auditId auditNow i ls) LOANS_KEY =
               Some (JSON_stringify rt (loans_json (set_status i d (getLoans rt ls))))"
    using createAuditLogEntry_keeps_loans[of rt auditId auditNow _
            "saveLoans rt (set_status i d (getLoans rt ls)) ls"]
    unfolding d_def
    by (simp add: autoDecideLoan_def Let_def snd_rethrow) (simp add: saveLoans_def setItem_def)
  then have "getLoans rt (snd (autoDecideLoan rt auditId auditNow i ls)) =
               set_status i d (getLoans rt ls)"
    using assms by (rule getLoans_read)
  moreover have "d \<in> {approved, rejected}" by (simp add: d_def)
  ultimately show ?thesis by blast
qed

lemma createLoanApplication_loans:
  assumes "reads_back rt (snd (createLoanApplication rt newId now auditId auditNow input ls))"
  shows "\<exists>new. getLoans rt (snd (createLoanApplication rt newId now auditId auditNow input ls)) =
           getLoans rt ls @ new"
proof (cases "trim (applicantName input) \<noteq> [] \<and> 0 < amount input
              \<and> 0 < termMonths input \<and> 0 \<le> interestRate input")
  case False
  then have "snd (createLoanApplication rt newId now auditId auditNow input ls) = ls"
    by (auto simp: createLoanApplication_def)
  then show ?thesis by simp
next
  case True
  let ?loan = "\<lparr>applicantName = trim (applicantName input), amount = amount input,
           termMonths = termMonths input, interestRate = interestRate input,
           loan_id = newId, status = pending, createdAt = now\<rparr>"
  from True have "snd (createLoanApplication rt newId now auditId auditNow input ls) LOANS_KEY =
               Some (JSON_stringify rt (loans_json (getLoans rt ls @ [?loan])))"
    using createAuditLogEntry_keeps_loans[of rt auditId auditNow _
            "saveLoans rt (getLoans rt ls @ [?loan]) ls"]
    by (simp add: createLoanApplication_def Let_def snd_rethrow) (simp add: saveLoans_def setItem_def)
  then have "getLoans rt (snd (createLoanApplication rt newId now auditId auditNow input ls)) =
               getLoans rt ls @ [?loan]"
    using assms by (rule getLoans_read)
  then show ?thesis by blast
qed










section \<open>The example runs\<close>

lemma distinct_texts: "distinct (map snd json_texts)"
  by (simp add: json_texts_def)

lemma nonempty_texts: "[] \<notin> snd ` set json_texts"
  by (simp add: json_texts_def)

lemma example_round_trip:
  assumes "example_stringify v \<in> snd ` set json_texts"
  shows "example_parse (example_stringify v) = Inr v"
proof (cases "map_of json_texts v")
  case None
  with assms nonempty_texts show ?thesis by (simp add: example_stringify_def)
next
  case (Some t)
  then have "(v, t) \<in> set json_texts" by (rule map_of_SomeD)
  then have "(t, v) \<in> set (map (\<lambda>(v, t). (t, v)) json_texts)" by force
  moreover have "distinct (map fst (map (\<lambda>(v, t). (t, v)) json_texts))"
    using distinct_texts by (simp add: comp_def case_prod_unfold)
  ultimately have "map_of (map (\<lambda>(v, t). (t, v)) json_texts) t = Some v"
    by (rule map_of_is_SomeI[rotated])
  with Some show ?thesis by (simp add: example_stringify_def example_parse_def)
qed

lemma example_reads_back:
  assumes "\<forall>k t. ls k = Some t \<longrightarrow> t \<in> snd ` set json_texts"
  shows "reads_back example_rt ls"
  unfolding reads_back_def
proof (intro allI impI)
  fix k v
  assume "ls k = Some (JSON_stringify example_rt v)"
  with assms have *: "example_stringify v \<in> snd ` set json_texts"
    by (simp add: example_rt_def)
  with nonempty_texts have "example_stringify v \<noteq> []" by metis
  with example_round_trip[OF *]
  show "JSON_stringify example_rt v \<noteq> [] \<and>
        JSON_parse example_rt (JSON_stringify example_rt v) = Inr v"
    by (simp add: example_rt_def)
qed

lemma trim_alice: "trim ''Alice Smith'' = ''Alice Smith''"
  by (simp add: trim_def is_space_def)

lemma after_create_eq:
  "after_create = [LOANS_KEY \<mapsto> example_stringify (loans_json [alice pending]),
                   STORAGE_KEY \<mapsto> example_stringify (JArr [entry_json alice_created])]"
  by (simp add: after_create_def createLoanApplication_def alice_input_def trim_alice Let_def
        getLoans_def example_rt_def createAuditLogEntry_def getAuditLogs_def getAuditLogs_try_def
        saveLoans_def saveAuditLogs_def setItem_def keys_differ alice_def alice_created_def)

lemmas example_values = loans_json_def loan_json_def alice_def eve_def entry_json_def
  alice_created_def alice_approved_def alice_rejected_def eve_decided_def three_entries_def

lemma in_table:
  assumes "map_of json_texts v = Some t"
  shows "example_stringify v \<in> snd ` set json_texts"
proof -
  from assms have "(v, t) \<in> set json_texts" by (rule map_of_SomeD)
  then have "snd (v, t) \<in> snd ` set json_texts" by (rule imageI)
  with assms show ?thesis by (simp add: example_stringify_def)
qed

lemma example_texts:
  "example_stringify (loans_json [alice s]) \<in> snd ` set json_texts"
  "example_stringify (loans_json [eve pending]) \<in> snd ` set json_texts"
  "example_stringify (loans_json [eve rejected]) \<in> snd ` set json_texts"
  "example_stringify (JArr [entry_json alice_created]) \<in> snd ` set json_texts"
  "example_stringify (JArr [entry_json alice_created, entry_json alice_approved])
     \<in> snd ` set json_texts"
  "example_stringify (JArr [entry_json alice_created, entry_json alice_approved,
     entry_json alice_rejected]) \<in> snd ` set json_texts"
  "example_stringify (JArr [entry_json eve_decided]) \<in> snd ` set json_texts"
  "example_stringify (JArr (map entry_json three_entries)) \<in> snd ` set json_texts"
proof -
  show "example_stringify (loans_json [alice s]) \<in> snd ` set json_texts"
    by (cases s; rule in_table; simp add: json_texts_def example_values)
qed (rule in_table; simp add: json_texts_def example_values)+

lemma stringify_example_rt: "JSON_stringify example_rt = example_stringify"
  by (simp add: example_rt_def)

lemma reads_back_after_create: "reads_back example_rt after_create"
  by (rule example_reads_back) (auto simp: after_create_eq example_texts split: if_splits)

lemma loans_after_create: "getLoans example_rt after_create = [alice pending]"
  by (rule getLoans_read[OF _ reads_back_after_create])
     (simp add: after_create_eq keys_differ stringify_example_rt)

lemma logs_after_create: "getAuditLogs example_rt after_create = JArr [entry_json alice_created]"
  by (rule getAuditLogs_read[OF _ reads_back_after_create])
     (simp add: after_create_eq keys_differ stringify_example_rt)

lemma loan_id_alice: "loan_id (alice s) = ''L1''"
  by (simp add: alice_def)

lemma set_status_alice: "set_status ''L1'' s' [alice s] = [alice s']"
  by (simp add: alice_def)

lemma after_approve_eq:
  "after_approve = [LOANS_KEY \<mapsto> example_stringify (loans_json [alice approved]),
     STORAGE_KEY \<mapsto> example_stringify (JArr [entry_json alice_created, entry_json alice_approved])]"
proof -
  have "find (\<lambda>l. loan_id l = ''L1'') (getLoans example_rt after_create) = Some (alice pending)"
    by (simp add: loans_after_create loan_id_alice)
  from updateLoanStatus_found[OF this logs_after_create]
  have "after_approve = after_create
          (LOANS_KEY \<mapsto> example_stringify (loans_json [alice approved]),
           STORAGE_KEY \<mapsto> example_stringify
              (JArr [entry_json alice_created, entry_json alice_approved]))"
    by (simp add: after_approve_def loans_after_create set_status_alice stringify_example_rt
          alice_approved_def) (simp add: alice_def)
  then show ?thesis by (simp add: after_create_eq)
qed

lemma reads_back_after_approve: "reads_back example_rt after_approve"
  by (rule example_reads_back) (auto simp: after_approve_eq example_texts split: if_splits)

lemma loans_after_approve: "getLoans example_rt after_approve = [alice approved]"
  by (rule getLoans_read[OF _ reads_back_after_approve])
     (simp add: after_approve_eq keys_differ stringify_example_rt)

lemma logs_after_approve:
  "getAuditLogs example_rt after_approve = JArr [entry_json alice_created, entry_json alice_approved]"
  by (rule getAuditLogs_read[OF _ reads_back_after_approve])
     (simp add: after_approve_eq keys_differ stringify_example_rt)

lemma after_reject_eq:
  "after_reject = [LOANS_KEY \<mapsto> example_stringify (loans_json [alice rejected]),
     STORAGE_KEY \<mapsto> example_stringify (JArr [entry_json alice_created, entry_json alice_approved,
       entry_json alice_rejected])]"
proof -
  have "find (\<lambda>l. loan_id l = ''L1'') (getLoans example_rt after_approve) = Some (alice approved)"
    by (simp add: loans_after_approve loan_id_alice)
  from updateLoanStatus_found[OF this logs_after_approve]
  have "after_reject = after_approve
          (LOANS_KEY \<mapsto> example_stringify (loans_json [alice rejected]),
           STORAGE_KEY \<mapsto> example_stringify
              (JArr [entry_json alice_created, entry_json alice_approved,
                     entry_json alice_rejected]))"
    by (simp add: after_reject_def loans_after_approve set_status_alice stringify_example_rt
          alice_rejected_def) (simp add: alice_def)
  then show ?thesis by (simp add: after_approve_eq)
qed

lemma reads_back_after_reject: "reads_back example_rt after_reject"
  by (rule example_reads_back) (auto simp: after_reject_eq example_texts split: if_splits)

lemma loans_after_reject: "getLoans example_rt after_reject = [alice rejected]"
  by (rule getLoans_read[OF _ reads_back_after_reject])
     (simp add: after_reject_eq keys_differ stringify_example_rt)

lemma create_alice:
  "createLoanApplication example_rt ''L1'' ''2024-01-01T10:00:00.000Z''
     ''A1'' ''2024-01-01T10:00:00.000Z'' alice_input Map.empty = (Inr (alice pending), after_create)"
  by (simp add: after_create_def createLoanApplication_def alice_input_def trim_alice Let_def
        getLoans_def example_rt_def createAuditLogEntry_def getAuditLogs_def getAuditLogs_try_def
        saveLoans_def saveAuditLogs_def setItem_def keys_differ alice_def alice_created_def)









lemma reads_back_three_store: "reads_back example_rt three_store"
  by (rule example_reads_back) (auto simp: three_store_def example_texts split: if_splits)

lemma logs_three_store: "getAuditLogs example_rt three_store = JArr (map entry_json three_entries)"
  by (rule getAuditLogs_read[OF _ reads_back_three_store])
     (simp add: three_store_def stringify_example_rt)




lemma bob_texts:
  "example_stringify (loans_json [alice pending, bob ''L3'']) \<in> snd ` set json_texts"
  "example_stringify (loans_json [alice pending, bob ''L1'']) \<in> snd ` set json_texts"
  "example_stringify (JArr [entry_json alice_created, entry_json (bob_created ''L3'')])
     \<in> snd ` set json_texts"
  "example_stringify (JArr [entry_json alice_created, entry_json (bob_created ''L1'')])
     \<in> snd ` set json_texts"
  by (rule in_table; simp add: json_texts_def example_values bob_def bob_created_def)+

lemma trim_bob: "trim ''Bob'' = ''Bob''"
  by (simp add: trim_def is_space_def)

lemma create_bob:
  "createLoanApplication example_rt i ''2024-01-05T10:00:00.000Z''
     ''A5'' ''2024-01-05T10:00:00.000Z'' bob_input after_create =
   (Inr (bob i),
    [LOANS_KEY \<mapsto> example_stringify (loans_json [alice pending, bob i]),
     STORAGE_KEY \<mapsto> example_stringify (JArr [entry_json alice_created, entry_json (bob_created i)])])"
proof -
  have "trim (applicantName bob_input) \<noteq> []" "0 < amount bob_input"
    "0 < termMonths bob_input" "0 \<le> interestRate bob_input"
    by (simp_all add: bob_input_def trim_bob)
  from createLoanApplication_valid[OF this logs_after_create,
         of i "''2024-01-05T10:00:00.000Z''" "''A5''" "''2024-01-05T10:00:00.000Z''"]
  have "createLoanApplication example_rt i ''2024-01-05T10:00:00.000Z''
     ''A5'' ''2024-01-05T10:00:00.000Z'' bob_input after_create =
   (Inr (bob i),
    after_create
      (LOANS_KEY \<mapsto> example_stringify (loans_json [alice pending, bob i]),
       STORAGE_KEY \<mapsto> example_stringify
          (JArr [entry_json alice_created, entry_json (bob_created i)])))"
    by (simp add: loans_after_create stringify_example_rt bob_def bob_created_def)
       (simp add: bob_input_def trim_bob)
  then show ?thesis by (simp add: after_create_eq)
qed

lemma after_bob_eq:
  "after_bob = [LOANS_KEY \<mapsto> example_stringify (loans_json [alice pending, bob ''L3'']),
     STORAGE_KEY \<mapsto> example_stringify
        (JArr [entry_json alice_created, entry_json (bob_created ''L3'')])]"
  by (simp add: after_bob_def create_bob)



lemma reads_back_after_bob: "reads_back example_rt after_bob"
  by (rule example_reads_back) (auto simp: after_bob_eq bob_texts split: if_splits)


lemma loans_after_bob: "getLoans example_rt after_bob = [alice pending, bob ''L3'']"
  by (rule getLoans_read[OF _ reads_back_after_bob])
     (simp add: after_bob_eq keys_differ stringify_example_rt)





















section \<open>The claims\<close>

text \<open>
  C1.  For every pair of real numbers, \<open>shouldAutoApprove\<close> is true exactly when the
  amount is at most 100000 and the term at most 60; the boundary (100000, 60) is approved,
  (100001, 60) and (100000, 61) are not.
\<close>

theorem shouldAutoApprove_threshold:
  "(shouldAutoApprove amt months \<longleftrightarrow> amt \<le> 100000 \<and> months \<le> 60)
   \<and> shouldAutoApprove 100000 60
   \<and> \<not> shouldAutoApprove 100001 60
   \<and> \<not> shouldAutoApprove 100000 61"
  by (simp add: shouldAutoApprove_def)










text \<open>
  C5, as stated, fails.  The store reached by creating a loan and approving it holds an
  approved loan; \<open>updateLoanStatus\<close> with \<open>rejected\<close> changes its status to
  \<open>rejected\<close>.
\<close>

theorem approved_loan_rejected_counterexample:
  "map status (getLoans example_rt after_approve) = [approved]
   \<and> map status (getLoans example_rt after_reject) = [rejected]"
  by (simp add: loans_after_approve loans_after_reject alice_def)

text \<open>
  C5, amended.  Whenever an operation of the Loan Store changes the status of a stored
  loan, the operation is \<open>updateStatus\<close> or \<open>autoDecide\<close> addressed to the id of that
  loan, and the status afterwards is the status given to \<open>updateStatus\<close>, or
  \<open>approved\<close> or \<open>rejected\<close> for \<open>autoDecide\<close>.  The status before is not
  constrained.
\<close>

theorem status_changes_only_where_addressed:
  assumes "ls' = run_op rt newId now auditId auditNow op ls"
      and "reads_back rt ls'"
      and "k < length (getLoans rt ls)"
      and "status (getLoans rt ls' ! k) \<noteq> status (getLoans rt ls ! k)"
  shows "(\<exists>s. op = UpdateStatus (loan_id (getLoans rt ls ! k)) s
              \<and> status (getLoans rt ls' ! k) = s)
       \<or> (op = AutoDecide (loan_id (getLoans rt ls ! k))
              \<and> status (getLoans rt ls' ! k) \<in> {approved, rejected})"
proof (cases op)
  case (Create input)
  with assms(1,2) createLoanApplication_loans[of rt newId now auditId auditNow input ls]
  obtain new where "getLoans rt ls' = getLoans rt ls @ new" by auto
  with assms(3,4) show ?thesis by (simp add: nth_append)
next
  case (UpdateStatus i s)
  with assms(1,2) updateLoanStatus_loans[of rt auditId auditNow i s ls]
  have "getLoans rt ls' = set_status i s (getLoans rt ls)" by simp
  with assms(4) set_status_nth[OF assms(3), of i s] UpdateStatus
  show ?thesis by auto
next
  case (AutoDecide i)
  with assms(1,2) autoDecideLoan_loans[of rt auditId auditNow i ls]
  obtain s where "s \<in> {approved, rejected}"
    and "getLoans rt ls' = set_status i s (getLoans rt ls)" by auto
  with assms(4) set_status_nth[OF assms(3), of i s] AutoDecide
  show ?thesis by auto
qed

theorem status_changes_only_where_addressed_witness:
  "after_reject = run_op example_rt [] [] ''A3'' ''2024-01-03T10:00:00.000Z''
                    (UpdateStatus ''L1'' rejected) after_approve
   \<and> (0::nat) < length (getLoans example_rt after_approve)
   \<and> status (getLoans example_rt after_approve ! 0) = approved
   \<and> loan_id (getLoans example_rt after_approve ! 0) = ''L1''
   \<and> status (getLoans example_rt after_reject ! 0) = rejected"
proof -
  have h1: "after_reject = run_op example_rt [] [] ''A3'' ''2024-01-03T10:00:00.000Z''
                    (UpdateStatus ''L1'' rejected) after_approve"
    by (simp add: after_reject_def)
  have h3: "0 < length (getLoans example_rt after_approve)"
    by (simp add: loans_after_approve)
  have h4: "status (getLoans example_rt after_reject ! 0)
              \<noteq> status (getLoans example_rt after_approve ! 0)"
    by (simp add: loans_after_approve loans_after_reject alice_def)
  from status_changes_only_where_addressed[OF h1 reads_back_after_reject h3 h4]
  show ?thesis
    using h1 reads_back_after_reject
    by (simp add: loans_after_approve loans_after_reject alice_def)
qed

text \<open>
  C7.  For an id that no loan of the collection has, \<open>updateLoanStatus\<close> and
  \<open>autoDecideLoan\<close> return without error and leave the storage as it was: the loans
  and the audit log are unchanged.
\<close>

theorem missing_loan_is_noop:
  assumes "i \<notin> loan_id ` set (getLoans rt ls)"
  shows "updateLoanStatus rt auditId auditNow i s ls = (Inr (), ls)
       \<and> autoDecideLoan rt auditId auditNow i ls = (Inr (), ls)"
  using assms find_None_iff_id[of i "getLoans rt ls"]
  by (simp add: updateLoanStatus_def autoDecideLoan_def Let_def)

theorem missing_loan_is_noop_witness:
  "''L9'' \<notin> loan_id ` set (getLoans example_rt after_create)
   \<and> updateLoanStatus example_rt ''A2'' ''2024-01-02T10:00:00.000Z'' ''L9'' approved after_create
        = (Inr (), after_create)
   \<and> autoDecideLoan example_rt ''A2'' ''2024-01-02T10:00:00.000Z'' ''L9'' after_create
        = (Inr (), after_create)"
proof -
  have h: "''L9'' \<notin> loan_id ` set (getLoans example_rt after_create)"
    by (simp add: loans_after_create loan_id_alice)
  from missing_loan_is_noop[OF h] h show ?thesis by simp
qed

text \<open>
  C8.  When the item under the audit log key is absent, is the empty string, or does not
  parse, \<open>getAuditLogs\<close> returns the empty array; the function returns a value in
  every case and throws nothing.
\<close>

theorem getAuditLogs_recovers:
  assumes "ls STORAGE_KEY = None \<or> ls STORAGE_KEY = Some []
           \<or> (\<exists>stored e. ls STORAGE_KEY = Some stored \<and> JSON_parse rt stored = Inl e)"
  shows "getAuditLogs rt ls = JArr []"
  using assms by (auto simp: getAuditLogs_def getAuditLogs_try_def)

theorem getAuditLogs_recovers_witness:
  "getAuditLogs example_rt Map.empty = JArr []
   \<and> getAuditLogs example_rt [STORAGE_KEY \<mapsto> []] = JArr []
   \<and> JSON_parse example_rt ''invalid json'' = Inl SyntaxError
   \<and> getAuditLogs example_rt [STORAGE_KEY \<mapsto> ''invalid json''] = JArr []"
proof -
  have bad: "JSON_parse example_rt ''invalid json'' = Inl SyntaxError"
    by (simp add: example_rt_def example_parse_def json_texts_def)
  have "\<exists>stored e. [STORAGE_KEY \<mapsto> ''invalid json''] STORAGE_KEY = Some stored
          \<and> JSON_parse example_rt stored = Inl e"
    using bad by simp
  then have "getAuditLogs example_rt [STORAGE_KEY \<mapsto> ''invalid json''] = JArr []"
    using getAuditLogs_recovers[of "[STORAGE_KEY \<mapsto> ''invalid json'']" example_rt] by blast
  moreover have "getAuditLogs example_rt Map.empty = JArr []"
    using getAuditLogs_recovers[of Map.empty example_rt] by simp
  moreover have "getAuditLogs example_rt [STORAGE_KEY \<mapsto> []] = JArr []"
    using getAuditLogs_recovers[of "[STORAGE_KEY \<mapsto> []]" example_rt] by simp
  ultimately show ?thesis using bad by simp
qed

text \<open>
  C9.  When the audit log holds a sequence of audit entries, \<open>getAuditLogsForLoan x\<close>
  returns exactly the entries whose \<open>loanId\<close> is \<open>x\<close>, in the order of the log.
\<close>

theorem getAuditLogsForLoan_filters:
  assumes "getAuditLogs rt ls = JArr (map entry_json es)"
  shows "getAuditLogsForLoan rt x ls = Inr (map entry_json (filter (\<lambda>e. loanId e = x) es))"
  using assms by (simp add: getAuditLogsForLoan_def js_filter_entries)

theorem getAuditLogsForLoan_filters_witness:
  "getAuditLogs example_rt three_store = JArr (map entry_json three_entries)
   \<and> getAuditLogsForLoan example_rt ''loan-1'' three_store
       = Inr [entry_json (three_entries ! 0), entry_json (three_entries ! 2)]"
  using getAuditLogsForLoan_filters[OF logs_three_store, of "''loan-1''"] logs_three_store
  by (simp add: three_entries_def)

text \<open>
  C10.  When the item under the audit log key is present, not empty and parses,
  \<open>getAuditLogs\<close> returns the parsed value as it is, whatever its shape: the empty
  array is substituted only in the three cases of C8.  The text \<open>5\<close> is returned as
  the number 5.
\<close>

theorem getAuditLogs_unvalidated:
  assumes "ls STORAGE_KEY = Some stored" and "stored \<noteq> []" and "JSON_parse rt stored = Inr v"
  shows "getAuditLogs rt ls = v"
  using assms by (simp add: getAuditLogs_def getAuditLogs_try_def)

theorem getAuditLogs_unvalidated_witness:
  "JSON_parse example_rt ''5'' = Inr (JNum 5)
   \<and> getAuditLogs example_rt [STORAGE_KEY \<mapsto> ''5''] = JNum 5
   \<and> getAuditLogs example_rt [STORAGE_KEY \<mapsto> ''5''] \<noteq> JArr []"
proof -
  have five: "JSON_parse example_rt ''5'' = Inr (JNum 5)"
    by (simp add: example_rt_def example_parse_def json_texts_def)
  from getAuditLogs_unvalidated[of "[STORAGE_KEY \<mapsto> ''5'']" "''5''" example_rt "JNum 5"] five
  show ?thesis by simp
qed

end
